theory Spec2Isabelle
  imports Main
begin

section \<open>Python values used by \<open>forward_code.py\<close>\<close>

text \<open>
  Header names and values are byte strings on the wire; the proxy library hands them to
  the addon as \<open>str\<close> through a lossless decoding, so both are modelled as \<open>string\<close>
  (lists of 8-bit characters). Message bodies are \<open>bytes\<close>.
\<close>

type_synonym bytes = string

text \<open>
  A Python \<open>dict\<close> from \<open>str\<close> to \<open>str\<close>: the association list of its items in insertion
  order. \<open>d[k] = v\<close> overwrites the value of a key that is present, in place, and appends
  a new key at the end; keys are compared exactly (case-sensitively).
\<close>

type_synonym pydict = "(string \<times> string) list"

fun dict_set :: "pydict \<Rightarrow> string \<Rightarrow> string \<Rightarrow> pydict" where
  "dict_set [] k v = [(k, v)]"
| "dict_set ((k', v') # d) k v =
     (if k' = k then (k', v) # d else (k', v') # dict_set d k v)"

text \<open>\<open>d.get(k)\<close>: \<open>None\<close> when the key is missing.\<close>

definition dict_get :: "pydict \<Rightarrow> string \<Rightarrow> string option" where
  "dict_get d k = map_of d k"

section \<open>The proxy library's header collection\<close>

text \<open>
  \<open>flow.request.headers\<close> and \<open>flow.response.headers\<close> are objects of the proxy
  library's class \<open>Headers\<close>, a multi-dictionary over the tuple \<open>fields\<close> of (name, value)
  pairs in wire order. The class is not part of this repository; the operations the
  addon calls are modelled here as the library defines them:
  \<^item> names are compared case-insensitively (\<open>_kconv\<close> is \<open>lower()\<close>);
  \<^item> \<open>h.get_all(k)\<close> lists the values of every field named \<open>k\<close>, in order;
  \<^item> \<open>h[k]\<close> folds these values into one, joined by \<open>", "\<close>, and raises \<open>KeyError\<close>
    when there is none; \<open>k in h\<close> holds when \<open>h[k]\<close> does not raise;
  \<^item> \<open>h[k] = v\<close> is \<open>set_all(k, [v])\<close>: the first field named \<open>k\<close> keeps its place and
    spelling and takes the value \<open>v\<close>, the other fields named \<open>k\<close> are dropped, and a
    field \<open>(k, v)\<close> is appended when there was none;
  \<^item> \<open>del h[k]\<close> drops every field named \<open>k\<close>;
  \<^item> iterating \<open>h\<close> yields one key for each distinct name, spelled as at its first
    occurrence, so \<open>dict(h)\<close> maps each of these keys \<open>k\<close> to \<open>h[k]\<close>;
  \<^item> \<open>h.items(multi=True)\<close> yields every field, in order.
\<close>

type_synonym Headers = "(string \<times> string) list"

definition lower_char :: "char \<Rightarrow> char" where
  "lower_char c =
     (case map_of (zip ''ABCDEFGHIJKLMNOPQRSTUVWXYZ'' ''abcdefghijklmnopqrstuvwxyz'') c of
        Some l \<Rightarrow> l
      | None \<Rightarrow> c)"

definition kconv :: "string \<Rightarrow> string" where
  "kconv key = map lower_char key"

definition get_all :: "Headers \<Rightarrow> string \<Rightarrow> string list" where
  "get_all h key = map snd (filter (\<lambda>f. kconv (fst f) = kconv key) h)"

fun reduce_values :: "string list \<Rightarrow> string" where
  "reduce_values [] = []"
| "reduce_values [v] = v"
| "reduce_values (v # w # vs) = v @ '', '' @ reduce_values (w # vs)"

text \<open>\<open>h[key]\<close>; \<open>None\<close> stands for the \<open>KeyError\<close>.\<close>

definition getitem :: "Headers \<Rightarrow> string \<Rightarrow> string option" where
  "getitem h key =
     (case get_all h key of [] \<Rightarrow> None | v # vs \<Rightarrow> Some (reduce_values (v # vs)))"

definition contains :: "Headers \<Rightarrow> string \<Rightarrow> bool" where
  "contains h key = (getitem h key \<noteq> None)"

fun set_all :: "Headers \<Rightarrow> string \<Rightarrow> string list \<Rightarrow> Headers" where
  "set_all [] key vs = map (\<lambda>v. (key, v)) vs"
| "set_all ((k, v) # fs) key vs =
     (if kconv k = kconv key
      then (case vs of [] \<Rightarrow> set_all fs key [] | x # xs \<Rightarrow> (k, x) # set_all fs key xs)
      else (k, v) # set_all fs key vs)"

definition setitem :: "Headers \<Rightarrow> string \<Rightarrow> string \<Rightarrow> Headers" where
  "setitem h key v = set_all h key [v]"

text \<open>\<open>del h[key]\<close>, which the addon only runs after \<open>key in h\<close>.\<close>

definition delitem :: "Headers \<Rightarrow> string \<Rightarrow> Headers" where
  "delitem h key = filter (\<lambda>f. kconv (fst f) \<noteq> kconv key) h"

fun iter_keys :: "string list \<Rightarrow> Headers \<Rightarrow> string list" where
  "iter_keys seen [] = []"
| "iter_keys seen ((k, v) # fs) =
     (if kconv k \<in> set seen then iter_keys seen fs
      else k # iter_keys (kconv k # seen) fs)"

text \<open>\<open>dict(h)\<close>.\<close>

definition to_dict :: "Headers \<Rightarrow> pydict" where
  "to_dict h = fold (\<lambda>k d. dict_set d k (reduce_values (get_all h k))) (iter_keys [] h) []"

text \<open>\<open>h.items(multi=True)\<close>.\<close>

definition items_multi :: "Headers \<Rightarrow> (string \<times> string) list" where
  "items_multi h = h"

section \<open>Header Codec\<close>

text \<open>
  \<open>_serialize_headers_preserve\<close> (lines 14-25): the loop appends each pair to
  \<open>list_of_pairs\<close> and assigns \<open>dict_single[k] = v\<close>.
\<close>

fun serialize_loop ::
  "(string \<times> string) list \<Rightarrow> (string \<times> string) list \<times> pydict \<Rightarrow> (string \<times> string) list \<times> pydict"
where
  "serialize_loop [] acc = acc"
| "serialize_loop ((k, v) # rest) (list_of_pairs, dict_single) =
     serialize_loop rest (list_of_pairs @ [(k, v)], dict_set dict_single k v)"

definition serialize_headers_preserve :: "Headers \<Rightarrow> (string \<times> string) list \<times> pydict" where
  "serialize_headers_preserve headers_obj = serialize_loop (items_multi headers_obj) ([], [])"

text \<open>The value of the last field whose name is spelled exactly \<open>name\<close>, if there is one.\<close>

definition last_occurrence :: "Headers \<Rightarrow> string \<Rightarrow> string option" where
  "last_occurrence h name =
     (case filter (\<lambda>f. fst f = name) h of [] \<Rightarrow> None | f # fs \<Rightarrow> Some (snd (last (f # fs))))"

section \<open>Messages, flows and what the addon does to the outside\<close>

text \<open>
  The library's message objects, with the attributes the addon reads. \<open>content\<close> is the
  body that \<open>get_content()\<close> returns when it does not raise; the library has it raise
  \<open>ValueError\<close> for a body that does not match its \<open>Content-Encoding\<close>, and whether it
  does is given by the world below, at the line of the call. \<open>req_method\<close> is the
  attribute \<open>method\<close>.
\<close>

record Message =
  headers :: Headers
  content :: bytes

record Request = Message +
  req_method :: string
  url :: string

record Response = Message +
  status_code :: int

record HTTPFlow =
  flow_id :: string
  flow_request :: Request
  flow_response :: "Response option"
  intercepted :: bool

text \<open>
  An exception is an instance of \<open>Exception\<close>, carried as its text \<open>str(e)\<close>. Text that
  the addon encodes is taken over the code points below 256, one per character, and
  \<open>utf8_encode\<close> is \<open>str.encode("utf-8")\<close> on them.
\<close>

type_synonym exn = string

definition utf8_char :: "char \<Rightarrow> bytes" where
  "utf8_char c =
     (let n = (of_char c :: nat)
      in if n < 128 then [c] else [char_of (192 + n div 64), char_of (128 + n mod 64)])"

definition utf8_encode :: "string \<Rightarrow> bytes" where
  "utf8_encode s = concat (map utf8_char s)"

text \<open>
  Decoded text is a list of Unicode code points. \<open>decode_utf8_replace\<close> is
  \<open>bytes.decode("utf-8", errors="replace")\<close>: a well-formed sequence of one to four
  bytes yields its code point; an ill-formed one yields U+FFFD (65533) and decoding
  goes on behind it, so the call returns a text for every byte string. As the
  interpreter does, a byte that cannot start a sequence (\<open>0x80-0xC1\<close>, \<open>0xF5-0xFF\<close>) is
  replaced alone; a sequence broken by a byte that cannot continue it is replaced up
  to that byte, which is decoded again; a sequence cut short by the end of the input
  is replaced as a whole. Overlong forms, surrogates and code points above U+10FFFF
  are ill-formed at their second byte.
\<close>

type_synonym unicode = "nat list"

definition is_continuation :: "nat \<Rightarrow> bool" where
  "is_continuation b = (128 \<le> b \<and> b < 192)"

fun utf8_decode :: "nat list \<Rightarrow> unicode" where
  "utf8_decode [] = []"
| "utf8_decode (b0 # bs) =
     (if b0 < 128 then b0 # utf8_decode bs
      else if b0 < 194 \<or> 245 \<le> b0 then 65533 # utf8_decode bs
      else if b0 < 224 then
        (case bs of
           [] \<Rightarrow> [65533]
         | b1 # r1 \<Rightarrow>
             (if is_continuation b1
              then ((b0 - 192) * 64 + (b1 - 128)) # utf8_decode r1
              else 65533 # utf8_decode bs))
      else if b0 < 240 then
        (case bs of
           [] \<Rightarrow> [65533]
         | b1 # r1 \<Rightarrow>
             (if \<not> is_continuation b1 \<or> (b0 = 224 \<and> b1 < 160) \<or> (b0 = 237 \<and> 160 \<le> b1)
              then 65533 # utf8_decode bs
              else
                (case r1 of
                   [] \<Rightarrow> [65533]
                 | b2 # r2 \<Rightarrow>
                     (if is_continuation b2
                      then ((b0 - 224) * 4096 + (b1 - 128) * 64 + (b2 - 128)) # utf8_decode r2
                      else 65533 # utf8_decode r1))))
      else
        (case bs of
           [] \<Rightarrow> [65533]
         | b1 # r1 \<Rightarrow>
             (if \<not> is_continuation b1 \<or> (b0 = 240 \<and> b1 < 144) \<or> (b0 = 244 \<and> 144 \<le> b1)
              then 65533 # utf8_decode bs
              else
                (case r1 of
                   [] \<Rightarrow> [65533]
                 | b2 # r2 \<Rightarrow>
                     (if \<not> is_continuation b2
                      then 65533 # utf8_decode r1
                      else
                        (case r2 of
                           [] \<Rightarrow> [65533]
                         | b3 # r3 \<Rightarrow>
                             (if is_continuation b3
                              then ((b0 - 240) * 262144 + (b1 - 128) * 4096
                                    + (b2 - 128) * 64 + (b3 - 128)) # utf8_decode r3
                              else 65533 # utf8_decode r2)))))))"

definition decode_utf8_replace :: "bytes \<Rightarrow> unicode" where
  "decode_utf8_replace bs = utf8_decode (map of_char bs)"

definition FORWARD_URL :: string where
  "FORWARD_URL = ''http://localhost:9000/receive''"

definition TIMEOUT :: nat where
  "TIMEOUT = 10"

text \<open>The arguments of \<open>requests.request\<close> (lines 46-52) and the reply object it returns.\<close>

record outbound_call =
  call_method :: string
  call_url :: string
  call_headers :: pydict
  call_data :: bytes
  call_timeout :: nat

record svc_response =
  svc_status_code :: int
  svc_content :: bytes
  svc_headers :: pydict

text \<open>The report of lines 136-151, with the keys of the JSON object as fields.\<close>

record request_part =
  rq_method :: string
  rq_url :: string
  rq_headers_list :: "(string \<times> string) list"
  rq_headers :: pydict
  rq_body :: unicode

record response_part =
  rs_status_code :: int
  rs_headers_list :: "(string \<times> string) list"
  rs_headers :: pydict
  rs_body :: unicode

record payload =
  p_flow_id :: string
  p_request :: request_part
  p_response :: response_part

text \<open>
  What lies outside the addon:
  \<^item> \<open>requests_request\<close>: the outcome of the outbound call, an exception (timeout,
    connection error) or the service's reply;
  \<^item> \<open>raises\<close>: \<open>raises w l = Some e\<close> when the library call of the statement that starts
    at source line \<open>l\<close> raises \<open>e\<close>. It is consulted for the statements of the
    connector's \<open>try\<close> body (line 50, where the request body is read for the call,
    and lines 54 and 58) and for the report steps of the response hook (lines 123,
    124, 127, 132, 133, 136 and 152). At line 136 the library calls are the reads of
    the two bodies; the text decoding of lines 143 and 149 is \<open>decode_utf8_replace\<close>
    and does not raise.
\<close>

record world =
  requests_request :: "outbound_call \<Rightarrow> exn + svc_response"
  raises :: "nat \<Rightarrow> exn option"

text \<open>
  What a hook or a worker does besides updating the flow and the store, in order:
  log lines (by the source line of the call, an error line with the exception it
  reports), \<open>flow.intercept()\<close>, \<open>flow.resume()\<close>, the outbound call, and the two
  threads the hooks start with their arguments.
\<close>

datatype effect =
    Log_info nat
  | Log_error nat exn
  | Intercept
  | Resume
  | Http_call outbound_call
  | Thread_connector pydict
  | Thread_send payload

text \<open>
  \<open>http.Response.make(status_code, content, headers)\<close> with a \<open>dict\<close> of headers: the
  response with these three parts. The library's own bookkeeping of the body length is
  not modelled.
\<close>

definition Response_make :: "int \<Rightarrow> bytes \<Rightarrow> pydict \<Rightarrow> Response" where
  "Response_make status body hdrs = \<lparr>headers = hdrs, content = body, status_code = status\<rparr>"

section \<open>Exchange Store\<close>

text \<open>
  \<open>stored_headers\<close> (line 10): flow id to the \<open>dict\<close> of removed headers. \<open>put\<close> is the
  assignment of line 99; \<open>take_if_present\<close> is the membership test and \<open>pop\<close> of lines
  112-115.
\<close>

type_synonym store = "string \<rightharpoonup> pydict"

definition put :: "store \<Rightarrow> string \<Rightarrow> pydict \<Rightarrow> store" where
  "put stored_headers fid removed = stored_headers(fid \<mapsto> removed)"

definition take_if_present :: "store \<Rightarrow> string \<Rightarrow> pydict option \<times> store" where
  "take_if_present stored_headers fid =
     (case stored_headers fid of
        None \<Rightarrow> (None, stored_headers)
      | Some removed \<Rightarrow> (Some removed, stored_headers(fid := None)))"

section \<open>Connector-service worker\<close>

definition outbound :: "HTTPFlow \<Rightarrow> pydict \<Rightarrow> outbound_call" where
  "outbound flow hdrs =
     \<lparr>call_method = req_method (flow_request flow),
      call_url = FORWARD_URL,
      call_headers = hdrs,
      call_data = content (flow_request flow),
      call_timeout = TIMEOUT\<rparr>"

text \<open>
  The \<open>try\<close> body, lines 46-66: \<open>Inl e\<close> when it raises \<open>e\<close>, else the response it
  installs. The arguments of the call are evaluated first, so a failure to read the
  request body (line 50) raises before any call is made.
\<close>

definition connector_try :: "world \<Rightarrow> HTTPFlow \<Rightarrow> pydict \<Rightarrow> exn + Response" where
  "connector_try w flow hdrs =
     (case raises w 50 of
        Some e \<Rightarrow> Inl e
      | None \<Rightarrow>
     (case requests_request w (outbound flow hdrs) of
        Inl e \<Rightarrow> Inl e
      | Inr svc_resp \<Rightarrow>
          (let hs = (case raises w 54 of
                       Some e \<Rightarrow> [(''Content-Type'', ''application/octet-stream'')]
                     | None \<Rightarrow> svc_headers svc_resp)
           in (case raises w 58 of
                 Some e \<Rightarrow> Inl e
               | None \<Rightarrow>
                   Inr (Response_make (svc_status_code svc_resp) (svc_content svc_resp) hs)))))"

text \<open>
  \<open>_handle_connector_service\<close> (lines 43-75): \<open>try\<close>, \<open>except Exception\<close>, \<open>finally\<close>.
  The outbound call is among the effects when its arguments were evaluated.
\<close>

definition handle_connector_service ::
  "world \<Rightarrow> HTTPFlow \<Rightarrow> pydict \<Rightarrow> HTTPFlow \<times> effect list"
where
  "handle_connector_service w flow hdrs =
     (let (flow1, effs) =
        (case connector_try w flow hdrs of
           Inr resp \<Rightarrow> (flow\<lparr>flow_response := Some resp\<rparr>, [Log_info 63])
         | Inl e \<Rightarrow>
             (flow\<lparr>flow_response := Some (Response_make 502
                 (utf8_encode (''Error contacting connector service: '' @ e))
                 [(''Content-Type'', ''text/plain'')])\<rparr>,
              [Log_error 73 e]))
      in (flow1\<lparr>intercepted := False\<rparr>,
          (case raises w 50 of
             Some e \<Rightarrow> []
           | None \<Rightarrow> [Http_call (outbound flow hdrs)]) @ effs @ [Resume]))"

section \<open>Request hook\<close>

text \<open>
  \<open>request\<close> (lines 79-101). The result is the store, the flow and the effects; the
  hook returns with the flow not intercepted on the normal path, and the proxy then
  forwards \<open>flow_request\<close> upstream. The test \<open>in\<close> of line 94 and the read of line 95
  are one lookup here: the name is in the collection exactly when the lookup has a
  value.
\<close>

definition request :: "store \<Rightarrow> HTTPFlow \<Rightarrow> store \<times> HTTPFlow \<times> effect list" where
  "request stored_headers flow =
     (let hdrs = to_dict (headers (flow_request flow))
      in if dict_get hdrs ''x-source'' = Some ''connector-service''
         then (stored_headers, flow\<lparr>intercepted := True\<rparr>,
               [Log_info 87, Intercept, Thread_connector hdrs])
         else
           (let h = headers (flow_request flow);
                (removed, h') =
                  (case getitem h ''x-request-id'' of
                     Some v \<Rightarrow> (dict_set [] ''x-request-id'' v, delitem h ''x-request-id'')
                   | None \<Rightarrow> ([], h));
                flow' = flow\<lparr>flow_request := (flow_request flow)\<lparr>headers := h'\<rparr>\<rparr>
            in if removed \<noteq> []
               then (put stored_headers (flow_id flow) removed, flow', [Log_info 100])
               else (stored_headers, flow', [])))"

section \<open>Response hook\<close>

text \<open>Lines 127-129: every removed header is assigned into a copy's headers.\<close>

definition restore_removed :: "pydict \<Rightarrow> Headers \<Rightarrow> Headers" where
  "restore_removed removed h = fold (\<lambda>(k, v) hs. setitem hs k v) removed h"

text \<open>
  Lines 123-133, which stand before the \<open>try\<close>: the two copies, the removed headers
  assigned into both, and the two serialisations. \<open>Inl e\<close> when a statement raises.
\<close>

definition prepare_copies ::
  "world \<Rightarrow> pydict \<Rightarrow> Request \<Rightarrow> Response \<Rightarrow>
   exn + (Request \<times> Response \<times> ((string \<times> string) list \<times> pydict) \<times> ((string \<times> string) list \<times> pydict))"
where
  "prepare_copies w removed req resp =
     (case raises w 123 of
        Some e \<Rightarrow> Inl e
      | None \<Rightarrow>
     (case raises w 124 of
        Some e \<Rightarrow> Inl e
      | None \<Rightarrow>
     (case raises w 127 of
        Some e \<Rightarrow> Inl e
      | None \<Rightarrow>
     (let req_copy = req\<lparr>headers := restore_removed removed (headers req)\<rparr>;
          resp_copy = resp\<lparr>headers := restore_removed removed (headers resp)\<rparr>
      in (case raises w 132 of
            Some e \<Rightarrow> Inl e
          | None \<Rightarrow>
         (case raises w 133 of
            Some e \<Rightarrow> Inl e
          | None \<Rightarrow>
              Inr (req_copy, resp_copy,
                   serialize_headers_preserve (headers req_copy),
                   serialize_headers_preserve (headers resp_copy))))))))"

text \<open>Lines 136-151, the first statement of the \<open>try\<close>.\<close>

definition assemble_payload ::
  "world \<Rightarrow> string \<Rightarrow> Request \<Rightarrow> Response \<Rightarrow> (string \<times> string) list \<times> pydict \<Rightarrow>
   (string \<times> string) list \<times> pydict \<Rightarrow> exn + payload"
where
  "assemble_payload w fid req_copy resp_copy rq rs =
     (case raises w 136 of
        Some e \<Rightarrow> Inl e
      | None \<Rightarrow>
          Inr \<lparr>p_flow_id = fid,
               p_request =
                 \<lparr>rq_method = req_method req_copy,
                  rq_url = url req_copy,
                  rq_headers_list = fst rq,
                  rq_headers = snd rq,
                  rq_body = decode_utf8_replace (content req_copy)\<rparr>,
               p_response =
                 \<lparr>rs_status_code = status_code resp_copy,
                  rs_headers_list = fst rs,
                  rs_headers = snd rs,
                  rs_body = decode_utf8_replace (content resp_copy)\<rparr>\<rparr>)"

text \<open>Lines 117-120: the headers written into the response bound for the client.\<close>

definition enrich_response :: "pydict \<Rightarrow> Response \<Rightarrow> Response" where
  "enrich_response removed resp =
     (let h1 = (case dict_get removed ''x-request-id'' of
                  Some v \<Rightarrow> setitem (headers resp) ''x-request-id'' v
                | None \<Rightarrow> headers resp)
      in resp\<lparr>headers := setitem h1 ''x-state'' ''response''\<rparr>)"

text \<open>
  \<open>response\<close> (lines 105-155). The last component is the exception that leaves the
  hook, if one does. A flow without a response makes line 119 or 120 raise an
  \<open>AttributeError\<close>, carried here by its name.
\<close>

definition response ::
  "world \<Rightarrow> store \<Rightarrow> HTTPFlow \<Rightarrow> store \<times> HTTPFlow \<times> effect list \<times> exn option"
where
  "response w stored_headers flow =
     (let fid = flow_id flow
      in case take_if_present stored_headers fid of
           (None, st) \<Rightarrow> (st, flow, [], None)
         | (Some removed, st) \<Rightarrow>
             (case flow_response flow of
                None \<Rightarrow> (st, flow, [], Some ''AttributeError'')
              | Some resp \<Rightarrow>
                  (let resp' = enrich_response removed resp;
                       flow' = flow\<lparr>flow_response := Some resp'\<rparr>
                   in case prepare_copies w removed (flow_request flow') resp' of
                        Inl e \<Rightarrow> (st, flow', [], Some e)
                      | Inr (req_copy, resp_copy, rq, rs) \<Rightarrow>
                          (case assemble_payload w fid req_copy resp_copy rq rs of
                             Inl e \<Rightarrow> (st, flow', [Log_error 155 e], None)
                           | Inr p \<Rightarrow>
                               (case raises w 152 of
                                  Some e \<Rightarrow> (st, flow', [Log_error 155 e], None)
                                | None \<Rightarrow> (st, flow', [Thread_send p, Log_info 153], None))))))"

section \<open>Runs of the addon\<close>

text \<open>
  The proxy calls the two hooks, one event at a time; \<open>stored_headers\<close> starts empty
  (line 10).
\<close>

datatype event = Request_received HTTPFlow | Response_received HTTPFlow

fun step :: "world \<Rightarrow> store \<Rightarrow> event \<Rightarrow> store" where
  "step w st (Request_received flow) = fst (request st flow)"
| "step w st (Response_received flow) = fst (response w st flow)"

definition run :: "world \<Rightarrow> event list \<Rightarrow> store" where
  "run w evs = fold (\<lambda>ev st. step w st ev) evs Map.empty"

text \<open>
  The snapshot as the specification words it: one entry per name, each later field
  overwriting the value of an earlier field of the same name.
\<close>

definition last_write_wins :: "Headers \<Rightarrow> pydict" where
  "last_write_wins h = fold (\<lambda>(k, v) d. dict_set d k v) h []"

text \<open>Every entry of the store is a \<open>dict\<close> with the single key \<open>x-request-id\<close>.\<close>

definition entries_ok :: "store \<Rightarrow> bool" where
  "entries_ok st =
     (\<forall>fid removed. st fid = Some removed \<longrightarrow> (\<exists>v. removed = [(''x-request-id'', v)]))"

section \<open>Concrete worlds and exchanges\<close>

text \<open>The service answers 200 with body \<open>ok\<close>, and no library call raises.\<close>

definition quiet_world :: world where
  "quiet_world =
     \<lparr>requests_request =
        (\<lambda>c. Inr \<lparr>svc_status_code = 200, svc_content = ''ok'',
                   svc_headers = [(''Content-Type'', ''text/plain'')]\<rparr>),
      raises = (\<lambda>l. None)\<rparr>"

text \<open>The outbound call times out.\<close>

definition timeout_world :: world where
  "timeout_world = quiet_world\<lparr>requests_request := (\<lambda>c. Inl ''Read timed out.'')\<rparr>"

text \<open>\<open>flow.request.copy()\<close> (line 123) raises.\<close>

definition copy_fault_world :: world where
  "copy_fault_world =
     quiet_world\<lparr>raises := (\<lambda>l. if l = 123 then Some ''copy failed'' else None)\<rparr>"

text \<open>Reading a body (lines 136-151) raises.\<close>

definition body_fault_world :: world where
  "body_fault_world =
     quiet_world\<lparr>raises := (\<lambda>l. if l = 136 then Some ''invalid content-encoding'' else None)\<rparr>"

text \<open>Starting the sender thread (line 152) raises.\<close>

definition thread_fault_world :: world where
  "thread_fault_world =
     quiet_world\<lparr>raises := (\<lambda>l. if l = 152 then Some ''can not start new thread'' else None)\<rparr>"

text \<open>Reading the request body for the outbound call (line 50) raises.\<close>

definition request_body_fault_world :: world where
  "request_body_fault_world =
     quiet_world\<lparr>raises := (\<lambda>l. if l = 50 then Some ''invalid content-encoding'' else None)\<rparr>"

text \<open>The service answers, and building the response from its reply (line 58) raises.\<close>

definition build_fault_world :: world where
  "build_fault_world =
     quiet_world\<lparr>raises := (\<lambda>l. if l = 58 then Some ''bad reply'' else None)\<rparr>"

definition normal_flow :: HTTPFlow where
  "normal_flow =
     \<lparr>flow_id = ''flow-1'',
      flow_request =
        \<lparr>headers = [(''Host'', ''example.com''), (''x-request-id'', ''abc123'')],
         content = [], req_method = ''GET'', url = ''http://example.com/a''\<rparr>,
      flow_response = None,
      intercepted = False\<rparr>"

definition origin_ok :: Response where
  "origin_ok =
     \<lparr>headers = [(''Content-Type'', ''text/plain'')], content = ''ok'', status_code = 200\<rparr>"

text \<open>
  The exchange of \<open>normal_flow\<close> when the origin's response arrives: the store as the
  request hook left it, and the flow with the stripped request and the response.
\<close>

definition stored_entry :: store where
  "stored_entry = Map.empty(''flow-1'' \<mapsto> [(''x-request-id'', ''abc123'')])"

definition responded_flow :: HTTPFlow where
  "responded_flow =
     \<lparr>flow_id = ''flow-1'',
      flow_request =
        \<lparr>headers = [(''Host'', ''example.com'')],
         content = [], req_method = ''GET'', url = ''http://example.com/a''\<rparr>,
      flow_response = Some origin_ok,
      intercepted = False\<rparr>"




definition plain_flow :: HTTPFlow where
  "plain_flow =
     \<lparr>flow_id = ''flow-2'',
      flow_request =
        \<lparr>headers = [(''Host'', ''example.com'')],
         content = [], req_method = ''GET'', url = ''http://example.com/missing''\<rparr>,
      flow_response = None,
      intercepted = False\<rparr>"

definition origin_not_found :: Response where
  "origin_not_found =
     \<lparr>headers = [(''Content-Length'', ''0'')], content = [], status_code = 404\<rparr>"

definition connector_flow :: HTTPFlow where
  "connector_flow =
     \<lparr>flow_id = ''flow-3'',
      flow_request =
        \<lparr>headers = [(''x-source'', ''connector-service''),
                    (''accept'', ''text/html''), (''accept'', ''application/json'')],
         content = ''ping'', req_method = ''POST'', url = ''http://example.com/c''\<rparr>,
      flow_response = None,
      intercepted = False\<rparr>"

definition two_sources_flow :: HTTPFlow where
  "two_sources_flow =
     \<lparr>flow_id = ''flow-4'',
      flow_request =
        \<lparr>headers = [(''x-source'', ''internal''), (''x-source'', ''connector-service'')],
         content = [], req_method = ''GET'', url = ''http://example.com/d''\<rparr>,
      flow_response = None,
      intercepted = False\<rparr>"

section \<open>Facts about dicts and header collections\<close>

lemma dict_get_dict_set:
  "dict_get (dict_set d k v) k' = (if k' = k then Some v else dict_get d k')"
  by (induction d) (auto simp: dict_get_def)

lemma get_all_set_all:
  "get_all (set_all h k vs) k' = (if kconv k' = kconv k then vs else get_all h k')"
  by (induction h k vs rule: set_all.induct)
     (auto simp: get_all_def comp_def split: list.splits)

lemma get_all_setitem:
  "get_all (setitem h k v) k' = (if kconv k' = kconv k then [v] else get_all h k')"
  by (simp add: setitem_def get_all_set_all)

lemma get_all_delitem:
  "get_all (delitem h k) k' = (if kconv k' = kconv k then [] else get_all h k')"
  by (induction h) (auto simp: get_all_def delitem_def)

lemma kconv_request_id_state: "kconv ''x-request-id'' \<noteq> kconv ''x-state''"
  by (simp add: kconv_def lower_char_def)

section \<open>Header Codec: pairs and last-win mapping\<close>

lemma serialize_loop_fst: "fst (serialize_loop xs (l, d)) = l @ xs"
  by (induction xs arbitrary: l d) auto

lemma serialize_loop_snd:
  "dict_get (snd (serialize_loop xs (l, d))) n =
     (case last_occurrence xs n of Some v \<Rightarrow> Some v | None \<Rightarrow> dict_get d n)"
  by (induction xs arbitrary: l d)
     (auto simp: last_occurrence_def dict_get_dict_set split: list.splits)

text \<open>
  Claim C4. For every header collection \<open>h\<close>, \<open>_serialize_headers_preserve\<close> returns
  as its first component every (name, value) pair of \<open>h\<close>, in the original order and
  with duplicates, and as its second component a mapping in which every name has the
  value of its last occurrence in \<open>h\<close> (and a name that does not occur has no entry).
  The empty collection yields the empty sequence and the empty mapping. The function
  is total and returns nothing else.
\<close>

theorem serialize_headers_preserve_pairs_and_last_win:
  "fst (serialize_headers_preserve h) = h \<and>
   dict_get (snd (serialize_headers_preserve h)) name = last_occurrence h name \<and>
   serialize_headers_preserve [] = ([], [])"
proof -
  have "dict_get [] name = None" by (simp add: dict_get_def)
  then show ?thesis
    by (simp add: serialize_headers_preserve_def items_multi_def serialize_loop_fst
        serialize_loop_snd split: option.splits)
qed

theorem serialize_headers_preserve_pairs_and_last_win_witness:
  "fst (serialize_headers_preserve
          [(''Set-Cookie'', ''a=1''), (''Accept'', ''*/*''), (''Set-Cookie'', ''b=2'')])
     = [(''Set-Cookie'', ''a=1''), (''Accept'', ''*/*''), (''Set-Cookie'', ''b=2'')] \<and>
   dict_get (snd (serialize_headers_preserve
          [(''Set-Cookie'', ''a=1''), (''Accept'', ''*/*''), (''Set-Cookie'', ''b=2'')]))
       ''Set-Cookie''
     = Some ''b=2''"
  using serialize_headers_preserve_pairs_and_last_win
    [of "[(''Set-Cookie'', ''a=1''), (''Accept'', ''*/*''), (''Set-Cookie'', ''b=2'')]"
        "''Set-Cookie''"]
  by (simp add: last_occurrence_def)

section \<open>Exchange Store: entries are consumed once\<close>



section \<open>Evaluating the examples\<close>

lemmas example_defs = normal_flow_def origin_ok_def plain_flow_def connector_flow_def
  quiet_world_def stored_entry_def responded_flow_def

lemmas header_defs = to_dict_def get_all_def getitem_def contains_def setitem_def delitem_def
  kconv_def lower_char_def dict_get_def

section \<open>Normal path: the correlation header\<close>

text \<open>
  Claim C1. Take a request of the normal path (its snapshot does not map \<open>x-source\<close> to
  \<open>connector-service\<close>) that carries \<open>x-request-id\<close> with value \<open>R\<close>, the value the
  header collection reports for that name. The request hook leaves a request without
  any \<open>x-request-id\<close> field to be forwarded upstream. When the response hook later runs
  for the same flow id, on whatever response \<open>origin\<close> the upstream gave and with the
  entry of this flow still as the request hook stored it, the response bound for the
  client has exactly one \<open>x-request-id\<close> field, with value \<open>R\<close>, and the marker
  \<open>x-state: response\<close>; status and body are the origin's. This holds in every world,
  also when a later report step raises.
\<close>

theorem correlation_header_stripped_then_restored:
  assumes normal:
        "dict_get (to_dict (headers (flow_request flow))) ''x-source'' \<noteq> Some ''connector-service''"
      and carries: "getitem (headers (flow_request flow)) ''x-request-id'' = Some R"
      and later: "later (flow_id flow) = fst (request st flow) (flow_id flow)"
      and same: "flow_id laterflow = flow_id flow"
      and origin: "flow_response laterflow = Some origin"
  shows "\<not> contains (headers (flow_request (fst (snd (request st flow))))) ''x-request-id'' \<and>
         (\<exists>r. flow_response (fst (snd (response w later laterflow))) = Some r \<and>
            getitem (headers r) ''x-request-id'' = Some R \<and>
            get_all (headers r) ''x-request-id'' = [R] \<and>
            getitem (headers r) ''x-state'' = Some ''response'' \<and>
            status_code r = status_code origin \<and> content r = content origin)"
proof -
  let ?removed = "[(''x-request-id'', R)]"
  have req: "request st flow =
      (put st (flow_id flow) ?removed,
       flow\<lparr>flow_request :=
         (flow_request flow)\<lparr>headers := delitem (headers (flow_request flow)) ''x-request-id''\<rparr>\<rparr>,
       [Log_info 100])"
    using normal carries by (simp add: request_def)
  have stripped:
    "\<not> contains (headers (flow_request (fst (snd (request st flow))))) ''x-request-id''"
    by (simp add: req contains_def getitem_def get_all_delitem)
  have entry: "later (flow_id laterflow) = Some ?removed"
    using later same by (simp add: req put_def)
  have fin: "fst (snd (response w later laterflow)) =
      laterflow\<lparr>flow_response := Some (enrich_response ?removed origin)\<rparr>"
    using entry origin
    by (simp add: response_def take_if_present_def Let_def
        split: sum.splits option.splits prod.splits)
  have enr: "get_all (headers (enrich_response ?removed origin)) ''x-request-id'' = [R]"
       "get_all (headers (enrich_response ?removed origin)) ''x-state'' = [''response'']"
    using kconv_request_id_state
    by (simp_all add: enrich_response_def dict_get_def get_all_setitem)
  show ?thesis
    using stripped fin enr by (simp add: getitem_def enrich_response_def)
qed

theorem correlation_header_stripped_then_restored_witness:
  "dict_get (to_dict (headers (flow_request normal_flow))) ''x-source''
     \<noteq> Some ''connector-service'' \<and>
   getitem (headers (flow_request normal_flow)) ''x-request-id'' = Some ''abc123'' \<and>
   \<not> contains (headers (flow_request (fst (snd (request Map.empty normal_flow)))))
       ''x-request-id'' \<and>
   (\<exists>r. flow_response (fst (snd (response quiet_world (fst (request Map.empty normal_flow))
              ((fst (snd (request Map.empty normal_flow)))\<lparr>flow_response := Some origin_ok\<rparr>))))
           = Some r \<and>
        getitem (headers r) ''x-request-id'' = Some ''abc123'' \<and>
        get_all (headers r) ''x-request-id'' = [''abc123''] \<and>
        getitem (headers r) ''x-state'' = Some ''response'' \<and>
        status_code r = status_code origin_ok \<and> content r = content origin_ok)"
proof -
  have h1: "dict_get (to_dict (headers (flow_request normal_flow))) ''x-source''
      \<noteq> Some ''connector-service''"
    by (simp add: example_defs header_defs)
  have h2: "getitem (headers (flow_request normal_flow)) ''x-request-id'' = Some ''abc123''"
    by (simp add: example_defs header_defs)
  have h3: "flow_id ((fst (snd (request Map.empty normal_flow)))\<lparr>flow_response := Some origin_ok\<rparr>)
      = flow_id normal_flow"
    by (simp add: request_def normal_flow_def header_defs)
  show ?thesis
    using h1 h2 h3
      correlation_header_stripped_then_restored
        [where flow = normal_flow and R = "''abc123''" and st = Map.empty
           and later = "fst (request Map.empty normal_flow)"
           and laterflow =
             "(fst (snd (request Map.empty normal_flow)))\<lparr>flow_response := Some origin_ok\<rparr>"
           and origin = origin_ok and w = quiet_world]
    by simp
qed

text \<open>
  Claim C8. Take a request of the normal path with no \<open>x-request-id\<close> header, on a flow
  id for which the store holds no entry (flow ids are unique to an exchange). The
  request hook creates no store entry, changes nothing in the request and has no
  effect; the response hook then returns at once: it starts no report thread, logs
  nothing, raises nothing, and leaves the origin's response as it is, so no header is
  removed and neither \<open>x-request-id\<close> nor \<open>x-state\<close> is added.
\<close>

theorem no_correlation_header_leaves_exchange_untouched:
  assumes normal:
        "dict_get (to_dict (headers (flow_request flow))) ''x-source'' \<noteq> Some ''connector-service''"
      and absent: "\<not> contains (headers (flow_request flow)) ''x-request-id''"
      and fresh: "stored_headers (flow_id flow) = None"
  shows "request stored_headers flow = (stored_headers, flow, []) \<and>
         response w stored_headers (flow\<lparr>flow_response := Some origin\<rparr>)
           = (stored_headers, flow\<lparr>flow_response := Some origin\<rparr>, [], None)"
  using assms
  by (simp add: request_def contains_def response_def take_if_present_def)

theorem no_correlation_header_leaves_exchange_untouched_witness:
  "dict_get (to_dict (headers (flow_request plain_flow))) ''x-source''
     \<noteq> Some ''connector-service'' \<and>
   \<not> contains (headers (flow_request plain_flow)) ''x-request-id'' \<and>
   request Map.empty plain_flow = (Map.empty, plain_flow, []) \<and>
   response quiet_world Map.empty (plain_flow\<lparr>flow_response := Some origin_not_found\<rparr>)
     = (Map.empty, plain_flow\<lparr>flow_response := Some origin_not_found\<rparr>, [], None)"
proof -
  have h1: "dict_get (to_dict (headers (flow_request plain_flow))) ''x-source''
      \<noteq> Some ''connector-service''"
    by (simp add: example_defs header_defs)
  have h2: "\<not> contains (headers (flow_request plain_flow)) ''x-request-id''"
    by (simp add: example_defs header_defs)
  have h3: "Map.empty (flow_id plain_flow) = (None :: pydict option)" by simp
  show ?thesis
    using h1 h2 h3
      no_correlation_header_leaves_exchange_untouched
        [where flow = plain_flow and stored_headers = Map.empty and w = quiet_world
           and origin = origin_not_found]
    by simp
qed

section \<open>Request classification\<close>

text \<open>
  Claim C6, as the specification states it, reads the discriminator from a
  last-write-wins snapshot. On a request with the fields \<open>x-source: internal\<close> and
  \<open>x-source: connector-service\<close>, in this order, the last-write-wins snapshot maps
  \<open>x-source\<close> to \<open>connector-service\<close>, while the snapshot the hook takes, \<open>dict\<close> of the
  header collection, holds the folded value; the hook takes the normal path.
\<close>

theorem last_write_wins_discriminator_counterexample:
  "dict_get (last_write_wins (headers (flow_request two_sources_flow))) ''x-source''
     = Some ''connector-service'' \<and>
   dict_get (to_dict (headers (flow_request two_sources_flow))) ''x-source''
     = Some ''internal, connector-service'' \<and>
   request Map.empty two_sources_flow = (Map.empty, two_sources_flow, [])"
  by (simp add: two_sources_flow_def header_defs last_write_wins_def request_def)

text \<open>
  Claim C6, amended. The discriminator is read from the snapshot
  \<open>dict(flow.request.headers)\<close> of line 83, in which a header name that occurs several
  times has all its values joined by a comma and a space, not the last one. If this
  snapshot maps \<open>x-source\<close> to \<open>connector-service\<close>, the hook intercepts the flow and
  starts the connector worker with the snapshot, and does nothing of the normal path:
  the store and the request are unchanged, and (the flow id having no entry before) a
  response hook for this flow returns at once without enrichment. Otherwise the
  normal path runs, and only it: when the request has \<open>x-request-id\<close>, every field of
  that name is removed from the request, the value is stored under the flow id and
  the store line is logged; when it has none, store and flow are unchanged and
  nothing is logged; in both cases the flow is not intercepted and no connector
  worker is started.
\<close>

theorem request_takes_exactly_one_path:
  "(dict_get (to_dict (headers (flow_request flow))) ''x-source'' = Some ''connector-service'' \<longrightarrow>
      request st flow =
        (st, flow\<lparr>intercepted := True\<rparr>,
         [Log_info 87, Intercept, Thread_connector (to_dict (headers (flow_request flow)))]) \<and>
      (st (flow_id flow) = None \<longrightarrow>
         response w (fst (request st flow))
             ((fst (snd (request st flow)))\<lparr>flow_response := resp\<rparr>)
           = (st, flow\<lparr>intercepted := True, flow_response := resp\<rparr>, [], None))) \<and>
   (dict_get (to_dict (headers (flow_request flow))) ''x-source'' \<noteq> Some ''connector-service'' \<longrightarrow>
      request st flow =
        (case getitem (headers (flow_request flow)) ''x-request-id'' of
           Some v \<Rightarrow>
             (st(flow_id flow \<mapsto> [(''x-request-id'', v)]),
              flow\<lparr>flow_request := (flow_request flow)
                \<lparr>headers := delitem (headers (flow_request flow)) ''x-request-id''\<rparr>\<rparr>,
              [Log_info 100])
         | None \<Rightarrow> (st, flow, [])) \<and>
      intercepted (fst (snd (request st flow))) = intercepted flow \<and>
      Intercept \<notin> set (snd (snd (request st flow))) \<and>
      Thread_connector d \<notin> set (snd (snd (request st flow))) \<and>
      set (snd (snd (request st flow))) \<subseteq> {Log_info 100})"
  by (auto simp: request_def response_def take_if_present_def put_def Let_def
      split: option.splits)

theorem request_takes_exactly_one_path_witness:
  "dict_get (to_dict (headers (flow_request connector_flow))) ''x-source''
     = Some ''connector-service'' \<and>
   request Map.empty connector_flow =
     (Map.empty, connector_flow\<lparr>intercepted := True\<rparr>,
      [Log_info 87, Intercept,
       Thread_connector (to_dict (headers (flow_request connector_flow)))]) \<and>
   response quiet_world (fst (request Map.empty connector_flow))
       ((fst (snd (request Map.empty connector_flow)))\<lparr>flow_response := Some origin_ok\<rparr>)
     = (Map.empty, connector_flow\<lparr>intercepted := True, flow_response := Some origin_ok\<rparr>,
        [], None) \<and>
   dict_get (to_dict (headers (flow_request normal_flow))) ''x-source''
     \<noteq> Some ''connector-service'' \<and>
   request Map.empty normal_flow =
     (Map.empty(''flow-1'' \<mapsto> [(''x-request-id'', ''abc123'')]),
      normal_flow\<lparr>flow_request := (flow_request normal_flow)
        \<lparr>headers := [(''Host'', ''example.com'')]\<rparr>\<rparr>,
      [Log_info 100]) \<and>
   Intercept \<notin> set (snd (snd (request Map.empty normal_flow))) \<and>
   Thread_connector (to_dict (headers (flow_request normal_flow)))
     \<notin> set (snd (snd (request Map.empty normal_flow))) \<and>
   dict_get (to_dict (headers (flow_request plain_flow))) ''x-source''
     \<noteq> Some ''connector-service'' \<and>
   request Map.empty plain_flow = (Map.empty, plain_flow, [])"
proof -
  have h1: "dict_get (to_dict (headers (flow_request connector_flow))) ''x-source''
      = Some ''connector-service''"
    by (simp add: example_defs header_defs)
  have h2: "dict_get (to_dict (headers (flow_request normal_flow))) ''x-source''
      \<noteq> Some ''connector-service''"
    by (simp add: example_defs header_defs)
  have h3: "Map.empty (flow_id connector_flow) = (None :: pydict option)" by simp
  have h4: "dict_get (to_dict (headers (flow_request plain_flow))) ''x-source''
      \<noteq> Some ''connector-service''"
    by (simp add: example_defs header_defs)
  have n1: "getitem (headers (flow_request normal_flow)) ''x-request-id'' = Some ''abc123'' \<and>
      delitem (headers (flow_request normal_flow)) ''x-request-id'' = [(''Host'', ''example.com'')] \<and>
      flow_id normal_flow = ''flow-1''"
    by (simp add: example_defs header_defs)
  have n2: "getitem (headers (flow_request plain_flow)) ''x-request-id'' = None"
    by (simp add: example_defs header_defs)
  note connector = request_takes_exactly_one_path
      [where flow = connector_flow and st = Map.empty and w = quiet_world
         and resp = "Some origin_ok"]
  note normal = request_takes_exactly_one_path
      [where flow = normal_flow and st = Map.empty
         and d = "to_dict (headers (flow_request normal_flow))"]
  note plain = request_takes_exactly_one_path [where flow = plain_flow and st = Map.empty]
  have a: "request Map.empty connector_flow =
     (Map.empty, connector_flow\<lparr>intercepted := True\<rparr>,
      [Log_info 87, Intercept,
       Thread_connector (to_dict (headers (flow_request connector_flow)))])"
    using h1 connector by blast
  have b: "response quiet_world (fst (request Map.empty connector_flow))
       ((fst (snd (request Map.empty connector_flow)))\<lparr>flow_response := Some origin_ok\<rparr>)
     = (Map.empty, connector_flow\<lparr>intercepted := True, flow_response := Some origin_ok\<rparr>,
        [], None)"
    using h1 h3 connector by blast
  have c: "Intercept \<notin> set (snd (snd (request Map.empty normal_flow))) \<and>
      Thread_connector (to_dict (headers (flow_request normal_flow)))
        \<notin> set (snd (snd (request Map.empty normal_flow)))"
    using h2 normal by blast
  have "request Map.empty normal_flow =
        (case getitem (headers (flow_request normal_flow)) ''x-request-id'' of
           Some v \<Rightarrow>
             (Map.empty(flow_id normal_flow \<mapsto> [(''x-request-id'', v)]),
              normal_flow\<lparr>flow_request := (flow_request normal_flow)
                \<lparr>headers := delitem (headers (flow_request normal_flow)) ''x-request-id''\<rparr>\<rparr>,
              [Log_info 100])
         | None \<Rightarrow> (Map.empty, normal_flow, []))"
    using h2 normal by blast
  then have d: "request Map.empty normal_flow =
     (Map.empty(''flow-1'' \<mapsto> [(''x-request-id'', ''abc123'')]),
      normal_flow\<lparr>flow_request := (flow_request normal_flow)
        \<lparr>headers := [(''Host'', ''example.com'')]\<rparr>\<rparr>,
      [Log_info 100])"
    by (simp add: n1)
  have "request Map.empty plain_flow =
        (case getitem (headers (flow_request plain_flow)) ''x-request-id'' of
           Some v \<Rightarrow>
             (Map.empty(flow_id plain_flow \<mapsto> [(''x-request-id'', v)]),
              plain_flow\<lparr>flow_request := (flow_request plain_flow)
                \<lparr>headers := delitem (headers (flow_request plain_flow)) ''x-request-id''\<rparr>\<rparr>,
              [Log_info 100])
         | None \<Rightarrow> (Map.empty, plain_flow, []))"
    using h4 plain by blast
  then have e: "request Map.empty plain_flow = (Map.empty, plain_flow, [])"
    by (simp add: n2)
  from h1 h2 h4 a b c d e show ?thesis by blast
qed

section \<open>Exchange Store: what the entries hold\<close>

lemma request_store:
  "fst (request st flow) = st \<or>
   (\<exists>v. getitem (headers (flow_request flow)) ''x-request-id'' = Some v \<and>
        fst (request st flow) = st(flow_id flow \<mapsto> [(''x-request-id'', v)]))"
  by (auto simp: request_def put_def Let_def split: option.splits)

lemma response_store:
  "fst (response w st flow) = st \<or> fst (response w st flow) = st(flow_id flow := None)"
  by (auto simp: response_def take_if_present_def Let_def
      split: option.splits sum.splits prod.splits)

lemma step_entries_ok: "entries_ok st \<Longrightarrow> entries_ok (step w st ev)"
proof (cases ev)
  case (Request_received flow)
  assume ok: "entries_ok st"
  from request_store [of st flow] show ?thesis
  proof
    assume "fst (request st flow) = st"
    with ok Request_received show ?thesis by simp
  next
    assume "\<exists>v. getitem (headers (flow_request flow)) ''x-request-id'' = Some v \<and>
        fst (request st flow) = st(flow_id flow \<mapsto> [(''x-request-id'', v)])"
    then obtain v where "fst (request st flow) = st(flow_id flow \<mapsto> [(''x-request-id'', v)])"
      by blast
    with ok Request_received show ?thesis by (auto simp: entries_ok_def)
  qed
next
  case (Response_received flow)
  assume ok: "entries_ok st"
  from response_store [of w st flow] ok Response_received show ?thesis
    by (auto simp: entries_ok_def split: if_splits)
qed

lemma fold_entries_ok: "entries_ok st \<Longrightarrow> entries_ok (fold (\<lambda>ev st. step w st ev) evs st)"
  by (induction evs arbitrary: st) (simp_all add: step_entries_ok)

lemma run_entries_ok: "entries_ok (run w evs)"
  unfolding run_def by (rule fold_entries_ok) (simp add: entries_ok_def)

text \<open>
  Claim C10. After any sequence of request and response events, starting from the
  empty store, every entry of the store is a mapping with the single key
  \<open>x-request-id\<close>, so an entry that is consumed contains the correlation header. The
  request hook either leaves the store as it is or sets the entry of its flow to
  \<open>x-request-id\<close> with the value the inbound request has for it; the response hook
  only ever removes the entry of its flow. No other operation writes the store.
\<close>

theorem store_entries_hold_only_the_correlation_header:
  "(run w evs fid = Some removed \<longrightarrow>
      (\<exists>v. removed = [(''x-request-id'', v)]) \<and> dict_get removed ''x-request-id'' \<noteq> None) \<and>
   (fst (request st flow) = st \<or>
    (\<exists>v. getitem (headers (flow_request flow)) ''x-request-id'' = Some v \<and>
         fst (request st flow) = st(flow_id flow \<mapsto> [(''x-request-id'', v)]))) \<and>
   (fst (response w st flow) = st \<or> fst (response w st flow) = st(flow_id flow := None))"
proof -
  have "run w evs fid = Some removed \<longrightarrow>
      (\<exists>v. removed = [(''x-request-id'', v)]) \<and> dict_get removed ''x-request-id'' \<noteq> None"
  proof
    assume "run w evs fid = Some removed"
    with run_entries_ok [of w evs] obtain v where "removed = [(''x-request-id'', v)]"
      unfolding entries_ok_def by blast
    then show "(\<exists>v. removed = [(''x-request-id'', v)]) \<and>
        dict_get removed ''x-request-id'' \<noteq> None"
      by (simp add: dict_get_def)
  qed
  then show ?thesis
    using request_store [of st flow] response_store [of w st flow] by blast
qed

theorem store_entries_hold_only_the_correlation_header_witness:
  "run quiet_world [Request_received plain_flow, Request_received normal_flow] ''flow-1''
     = Some [(''x-request-id'', ''abc123'')] \<and>
   dict_get [(''x-request-id'', ''abc123'')] ''x-request-id'' \<noteq> None"
proof -
  have h: "run quiet_world [Request_received plain_flow, Request_received normal_flow] ''flow-1''
     = Some [(''x-request-id'', ''abc123'')]"
    by (simp add: run_def request_def put_def example_defs header_defs)
  show ?thesis
    using h
      store_entries_hold_only_the_correlation_header
        [where w = quiet_world
           and evs = "[Request_received plain_flow, Request_received normal_flow]"
           and fid = "''flow-1''" and removed = "[(''x-request-id'', ''abc123'')]"]
    by simp
qed

section \<open>Connector path: failure and resume\<close>

lemma utf8_encode_append: "utf8_encode (a @ b) = utf8_encode a @ utf8_encode b"
  by (simp add: utf8_encode_def)

lemma getitem_text_plain:
  "getitem [(''Content-Type'', ''text/plain'')] ''content-type'' = Some ''text/plain''"
  by (simp add: header_defs)

text \<open>
  Claim C2. In every world the connector worker ends by resuming the flow: the last
  effect is \<open>flow.resume()\<close>, the flow is no longer intercepted, and a response is
  installed, whether the \<open>try\<close> body succeeded or raised. The \<open>try\<close> body raises when
  reading the request body for the call raises (line 50), when the outbound call
  raises (timeout, connection error) and when building the response from the reply
  raises (line 58). Whenever it raises \<open>e\<close>, the installed response has status 502, the
  body is the UTF-8 encoding of \<open>Error contacting connector service: \<close> followed by
  the text of \<open>e\<close>, so it ends with the error description, the \<open>Content-Type\<close> is
  \<open>text/plain\<close>, and the error is logged.
\<close>

theorem connector_failure_installs_502_and_flow_is_resumed:
  "intercepted (fst (handle_connector_service w flow hdrs)) = False \<and>
   last (snd (handle_connector_service w flow hdrs)) = Resume \<and>
   flow_response (fst (handle_connector_service w flow hdrs)) \<noteq> None \<and>
   (raises w 50 = Some e \<longrightarrow> connector_try w flow hdrs = Inl e) \<and>
   (raises w 50 = None \<and> requests_request w (outbound flow hdrs) = Inl e \<longrightarrow>
      connector_try w flow hdrs = Inl e) \<and>
   (raises w 50 = None \<and> requests_request w (outbound flow hdrs) = Inr svc \<and>
    raises w 58 = Some e \<longrightarrow>
      connector_try w flow hdrs = Inl e) \<and>
   (connector_try w flow hdrs = Inl e \<longrightarrow>
      (\<exists>r. flow_response (fst (handle_connector_service w flow hdrs)) = Some r \<and>
           status_code r = 502 \<and>
           content r = utf8_encode (''Error contacting connector service: '' @ e) \<and>
           (\<exists>pre. content r = pre @ utf8_encode e) \<and>
           getitem (headers r) ''content-type'' = Some ''text/plain'') \<and>
      Log_error 73 e \<in> set (snd (handle_connector_service w flow hdrs)))"
proof -
  have body:
    "\<exists>pre. utf8_encode (''Error contacting connector service: '' @ e) = pre @ utf8_encode e"
    using utf8_encode_append by blast
  have always: "intercepted (fst (handle_connector_service w flow hdrs)) = False \<and>
      last (snd (handle_connector_service w flow hdrs)) = Resume \<and>
      flow_response (fst (handle_connector_service w flow hdrs)) \<noteq> None"
    by (simp add: handle_connector_service_def split: sum.splits option.splits)
  have causes:
    "(raises w 50 = Some e \<longrightarrow> connector_try w flow hdrs = Inl e) \<and>
     (raises w 50 = None \<and> requests_request w (outbound flow hdrs) = Inl e \<longrightarrow>
        connector_try w flow hdrs = Inl e) \<and>
     (raises w 50 = None \<and> requests_request w (outbound flow hdrs) = Inr svc \<and>
      raises w 58 = Some e \<longrightarrow>
        connector_try w flow hdrs = Inl e)"
    by (simp add: connector_try_def Let_def)
  have failed: "connector_try w flow hdrs = Inl e \<longrightarrow>
      (\<exists>r. flow_response (fst (handle_connector_service w flow hdrs)) = Some r \<and>
           status_code r = 502 \<and>
           content r = utf8_encode (''Error contacting connector service: '' @ e) \<and>
           (\<exists>pre. content r = pre @ utf8_encode e) \<and>
           getitem (headers r) ''content-type'' = Some ''text/plain'') \<and>
      Log_error 73 e \<in> set (snd (handle_connector_service w flow hdrs))"
    using body getitem_text_plain
    by (simp add: handle_connector_service_def Response_make_def split: option.splits)
  from always causes failed show ?thesis by blast
qed

theorem connector_failure_installs_502_and_flow_is_resumed_witness:
  "raises timeout_world 50 = None \<and>
   requests_request timeout_world
      (outbound connector_flow (to_dict (headers (flow_request connector_flow))))
     = Inl ''Read timed out.'' \<and>
   intercepted (fst (handle_connector_service timeout_world connector_flow
      (to_dict (headers (flow_request connector_flow))))) = False \<and>
   last (snd (handle_connector_service timeout_world connector_flow
      (to_dict (headers (flow_request connector_flow))))) = Resume \<and>
   (\<exists>r. flow_response (fst (handle_connector_service timeout_world connector_flow
              (to_dict (headers (flow_request connector_flow))))) = Some r \<and>
        status_code r = 502 \<and>
        content r = ''Error contacting connector service: Read timed out.'' \<and>
        getitem (headers r) ''content-type'' = Some ''text/plain'') \<and>
   raises build_fault_world 58 = Some ''bad reply'' \<and>
   (\<exists>r. flow_response (fst (handle_connector_service build_fault_world connector_flow
              (to_dict (headers (flow_request connector_flow))))) = Some r \<and>
        status_code r = 502 \<and>
        content r = ''Error contacting connector service: bad reply'' \<and>
        getitem (headers r) ''content-type'' = Some ''text/plain'') \<and>
   raises request_body_fault_world 50 = Some ''invalid content-encoding'' \<and>
   last (snd (handle_connector_service request_body_fault_world connector_flow
      (to_dict (headers (flow_request connector_flow))))) = Resume \<and>
   (\<exists>r. flow_response (fst (handle_connector_service request_body_fault_world connector_flow
              (to_dict (headers (flow_request connector_flow))))) = Some r \<and>
        status_code r = 502 \<and>
        content r = ''Error contacting connector service: invalid content-encoding'' \<and>
        getitem (headers r) ''content-type'' = Some ''text/plain'')"
proof -
  let ?hdrs = "to_dict (headers (flow_request connector_flow))"
  have h: "raises timeout_world 50 = None \<and>
     requests_request timeout_world (outbound connector_flow ?hdrs) = Inl ''Read timed out.''"
    by (simp add: timeout_world_def quiet_world_def)
  have enc: "utf8_encode (''Error contacting connector service: '' @ ''Read timed out.'')
     = ''Error contacting connector service: Read timed out.''"
    by (simp add: utf8_encode_def utf8_char_def)
  have g: "raises build_fault_world 50 = None \<and>
     requests_request build_fault_world (outbound connector_flow ?hdrs)
       = Inr \<lparr>svc_status_code = 200, svc_content = ''ok'',
              svc_headers = [(''Content-Type'', ''text/plain'')]\<rparr> \<and>
     raises build_fault_world 58 = Some ''bad reply''"
    by (simp add: build_fault_world_def quiet_world_def)
  have enc': "utf8_encode (''Error contacting connector service: '' @ ''bad reply'')
     = ''Error contacting connector service: bad reply''"
    by (simp add: utf8_encode_def utf8_char_def)
  have f: "raises request_body_fault_world 50 = Some ''invalid content-encoding''"
    by (simp add: request_body_fault_world_def)
  have enc'': "utf8_encode (''Error contacting connector service: '' @ ''invalid content-encoding'')
     = ''Error contacting connector service: invalid content-encoding''"
    by (simp add: utf8_encode_def utf8_char_def)
  note timeout = connector_failure_installs_502_and_flow_is_resumed
      [where w = timeout_world and flow = connector_flow and hdrs = ?hdrs
         and e = "''Read timed out.''"]
  note build = connector_failure_installs_502_and_flow_is_resumed
      [where w = build_fault_world and flow = connector_flow and hdrs = ?hdrs
         and e = "''bad reply''"
         and svc = "\<lparr>svc_status_code = 200, svc_content = ''ok'',
                      svc_headers = [(''Content-Type'', ''text/plain'')]\<rparr>"]
  note read = connector_failure_installs_502_and_flow_is_resumed
      [where w = request_body_fault_world and flow = connector_flow and hdrs = ?hdrs
         and e = "''invalid content-encoding''"]
  have a: "intercepted (fst (handle_connector_service timeout_world connector_flow ?hdrs)) = False \<and>
      last (snd (handle_connector_service timeout_world connector_flow ?hdrs)) = Resume \<and>
      (\<exists>r. flow_response (fst (handle_connector_service timeout_world connector_flow ?hdrs))
              = Some r \<and>
           status_code r = 502 \<and>
           content r = ''Error contacting connector service: Read timed out.'' \<and>
           getitem (headers r) ''content-type'' = Some ''text/plain'')"
    using h enc timeout by auto
  have b: "\<exists>r. flow_response (fst (handle_connector_service build_fault_world connector_flow ?hdrs))
              = Some r \<and>
           status_code r = 502 \<and>
           content r = ''Error contacting connector service: bad reply'' \<and>
           getitem (headers r) ''content-type'' = Some ''text/plain''"
    using g enc' build by auto
  have c: "last (snd (handle_connector_service request_body_fault_world connector_flow ?hdrs))
        = Resume \<and>
      (\<exists>r. flow_response (fst (handle_connector_service request_body_fault_world connector_flow
                ?hdrs)) = Some r \<and>
           status_code r = 502 \<and>
           content r = ''Error contacting connector service: invalid content-encoding'' \<and>
           getitem (headers r) ''content-type'' = Some ''text/plain'')"
    using f enc'' read by auto
  from h g f a b c show ?thesis by blast
qed

section \<open>Connector path: the forwarded headers\<close>

text \<open>
  Claim C3, evaluated on a connector request with two \<open>accept\<close> fields. The snapshot
  taken at line 83 and handed to the worker is a \<open>dict\<close>: it has one entry for
  \<open>accept\<close>, holding both values joined, so the outbound call carries two header
  entries where the request had three fields. Method and body are forwarded as they
  are.
\<close>

theorem connector_snapshot_folds_duplicate_headers:
  "headers (flow_request connector_flow) =
     [(''x-source'', ''connector-service''),
      (''accept'', ''text/html''), (''accept'', ''application/json'')] \<and>
   request Map.empty connector_flow =
     (Map.empty, connector_flow\<lparr>intercepted := True\<rparr>,
      [Log_info 87, Intercept,
       Thread_connector [(''x-source'', ''connector-service''),
                         (''accept'', ''text/html, application/json'')]]) \<and>
   snd (handle_connector_service quiet_world (connector_flow\<lparr>intercepted := True\<rparr>)
          [(''x-source'', ''connector-service''), (''accept'', ''text/html, application/json'')]) =
     [Http_call \<lparr>call_method = ''POST'', call_url = ''http://localhost:9000/receive'',
        call_headers = [(''x-source'', ''connector-service''),
                        (''accept'', ''text/html, application/json'')],
        call_data = ''ping'', call_timeout = 10\<rparr>,
      Log_info 63, Resume]"
  by (simp add: example_defs header_defs request_def handle_connector_service_def
      connector_try_def outbound_def FORWARD_URL_def TIMEOUT_def)

section \<open>Normal path: failures while building the report\<close>

text \<open>
  Claim C5, as the specification states it, has every failure of the copy,
  reinstatement, serialisation and assembly steps caught and logged. The \<open>try\<close> of
  line 135 covers the assembly and the start of the sender only: when the copy of
  line 123 raises, the hook logs nothing and the exception leaves it.
\<close>

theorem copy_failure_leaves_response_hook_uncaught_counterexample:
  "stored_entry (flow_id responded_flow) = Some [(''x-request-id'', ''abc123'')] \<and>
   raises copy_fault_world 123 = Some ''copy failed'' \<and>
   snd (snd (response copy_fault_world stored_entry responded_flow)) = ([], Some ''copy failed'')"
  by (simp add: example_defs copy_fault_world_def response_def take_if_present_def
      prepare_copies_def Let_def)

text \<open>
  Claim C5, amended. For a flow with a stored entry, the response bound for the client
  is the origin's response with the restored headers in every world, whatever step of
  the report raises, since it is written before the report is built. A failure of the
  payload assembly (lines 136-151) or of the start of the sender (line 152) is caught
  and logged, and no exception leaves the hook. A failure of the copies, of the
  reinstatement or of the serialisation (lines 123-133) is not caught: it leaves the
  hook, and nothing is logged. When none of those lines raises, the copies are built.
\<close>

theorem payload_failure_is_logged_and_client_response_unaffected:
  assumes entry: "stored_headers (flow_id flow) = Some removed"
      and origin: "flow_response flow = Some resp"
  shows
   "fst (snd (response w stored_headers flow))
      = flow\<lparr>flow_response := Some (enrich_response removed resp)\<rparr> \<and>
    (prepare_copies w removed (flow_request flow) (enrich_response removed resp) = Inr c \<and>
     raises w 136 = Some e \<longrightarrow>
       snd (snd (response w stored_headers flow)) = ([Log_error 155 e], None)) \<and>
    (prepare_copies w removed (flow_request flow) (enrich_response removed resp) = Inr c \<and>
     raises w 136 = None \<and> raises w 152 = Some e \<longrightarrow>
       snd (snd (response w stored_headers flow)) = ([Log_error 155 e], None)) \<and>
    (prepare_copies w removed (flow_request flow) (enrich_response removed resp) = Inl e \<longrightarrow>
       snd (snd (response w stored_headers flow)) = ([], Some e)) \<and>
    (raises w 123 = None \<and> raises w 124 = None \<and> raises w 127 = None \<and>
     raises w 132 = None \<and> raises w 133 = None \<longrightarrow>
       (\<exists>c'. prepare_copies w removed (flow_request flow) (enrich_response removed resp) = Inr c'))"
  using entry origin
  by (auto simp: response_def take_if_present_def assemble_payload_def prepare_copies_def Let_def
      split: sum.splits option.splits prod.splits)

theorem payload_failure_is_logged_and_client_response_unaffected_witness:
  "stored_entry (flow_id responded_flow) = Some [(''x-request-id'', ''abc123'')] \<and>
   flow_response responded_flow = Some origin_ok \<and>
   raises body_fault_world 136 = Some ''invalid content-encoding'' \<and>
   fst (snd (response body_fault_world stored_entry responded_flow))
     = responded_flow\<lparr>flow_response :=
         Some (enrich_response [(''x-request-id'', ''abc123'')] origin_ok)\<rparr> \<and>
   snd (snd (response body_fault_world stored_entry responded_flow))
     = ([Log_error 155 ''invalid content-encoding''], None) \<and>
   raises thread_fault_world 136 = None \<and>
   raises thread_fault_world 152 = Some ''can not start new thread'' \<and>
   snd (snd (response thread_fault_world stored_entry responded_flow))
     = ([Log_error 155 ''can not start new thread''], None) \<and>
   prepare_copies copy_fault_world [(''x-request-id'', ''abc123'')] (flow_request responded_flow)
       (enrich_response [(''x-request-id'', ''abc123'')] origin_ok) = Inl ''copy failed'' \<and>
   fst (snd (response copy_fault_world stored_entry responded_flow))
     = responded_flow\<lparr>flow_response :=
         Some (enrich_response [(''x-request-id'', ''abc123'')] origin_ok)\<rparr> \<and>
   snd (snd (response copy_fault_world stored_entry responded_flow))
     = ([], Some ''copy failed'')"
proof -
  let ?removed = "[(''x-request-id'', ''abc123'')]"
  have h1: "stored_entry (flow_id responded_flow) = Some ?removed"
    by (simp add: example_defs)
  have h2: "flow_response responded_flow = Some origin_ok"
    by (simp add: responded_flow_def)
  have h3: "raises body_fault_world 136 = Some ''invalid content-encoding''"
    by (simp add: body_fault_world_def)
  have quiet: "raises body_fault_world 123 = None \<and> raises body_fault_world 124 = None \<and>
      raises body_fault_world 127 = None \<and> raises body_fault_world 132 = None \<and>
      raises body_fault_world 133 = None"
    by (simp add: body_fault_world_def)
  have h3': "raises thread_fault_world 136 = None \<and>
      raises thread_fault_world 152 = Some ''can not start new thread''"
    by (simp add: thread_fault_world_def)
  have quiet': "raises thread_fault_world 123 = None \<and> raises thread_fault_world 124 = None \<and>
      raises thread_fault_world 127 = None \<and> raises thread_fault_world 132 = None \<and>
      raises thread_fault_world 133 = None"
    by (simp add: thread_fault_world_def)
  have h5: "prepare_copies copy_fault_world ?removed (flow_request responded_flow)
       (enrich_response ?removed origin_ok) = Inl ''copy failed''"
    by (simp add: prepare_copies_def copy_fault_world_def)
  note body = payload_failure_is_logged_and_client_response_unaffected
      [where stored_headers = stored_entry and flow = responded_flow
         and removed = ?removed and resp = origin_ok
         and w = body_fault_world and e = "''invalid content-encoding''"]
  note thread = payload_failure_is_logged_and_client_response_unaffected
      [where stored_headers = stored_entry and flow = responded_flow
         and removed = ?removed and resp = origin_ok
         and w = thread_fault_world and e = "''can not start new thread''"]
  note copy = payload_failure_is_logged_and_client_response_unaffected
      [where stored_headers = stored_entry and flow = responded_flow
         and removed = ?removed and resp = origin_ok
         and w = copy_fault_world and e = "''copy failed''"]
  from body h1 h2 quiet
  obtain c where h4: "prepare_copies body_fault_world ?removed (flow_request responded_flow)
      (enrich_response ?removed origin_ok) = Inr c"
    by blast
  from thread h1 h2 quiet'
  obtain c' where h4': "prepare_copies thread_fault_world ?removed (flow_request responded_flow)
      (enrich_response ?removed origin_ok) = Inr c'"
    by blast
  have first: "fst (snd (response body_fault_world stored_entry responded_flow))
       = responded_flow\<lparr>flow_response := Some (enrich_response ?removed origin_ok)\<rparr> \<and>
     snd (snd (response body_fault_world stored_entry responded_flow))
       = ([Log_error 155 ''invalid content-encoding''], None)"
    using h1 h2 h3 h4 body [where c = c] by blast
  have second: "snd (snd (response thread_fault_world stored_entry responded_flow))
       = ([Log_error 155 ''can not start new thread''], None)"
    using h1 h2 h3' h4' thread [where c = c'] by blast
  have third: "fst (snd (response copy_fault_world stored_entry responded_flow))
       = responded_flow\<lparr>flow_response := Some (enrich_response ?removed origin_ok)\<rparr> \<and>
     snd (snd (response copy_fault_world stored_entry responded_flow)) = ([], Some ''copy failed'')"
    using h1 h2 h5 copy by blast
  from h1 h2 h3 h3' h5 first second third show ?thesis by blast
qed

section \<open>Normal path: the report payload\<close>



subsection \<open>The text decoder\<close>








subsection \<open>The payload\<close>




end
